theory Spec2Isabelle
  imports Main "HOL-Library.AList"
begin

section \<open>Strings\<close>

text \<open>
  A Python string is modelled as a \<^typ>\<open>string\<close>, the bytes of its UTF-8 encoding: two
  Python strings are equal exactly when their encodings are, and the empty string is the
  empty list. The program calls three methods of \<^verbatim>\<open>str\<close>: \<^verbatim>\<open>lower()\<close>,
  \<^verbatim>\<open>strip()\<close> and \<^verbatim>\<open>capitalize()\<close>. What they return is decided by the Unicode
  tables of the interpreter, so the three are parameters of the model: every function
  below that calls one of them takes them as the record \<open>py\<close>, and every theorem
  holds whatever the three functions are.
\<close>

record python_str =
  lower :: "string \<Rightarrow> string"
  strip :: "string \<Rightarrow> string"
  capitalize :: "string \<Rightarrow> string"

text \<open>A scorer gives the similarity of a query and a corpus entry.\<close>

type_synonym scorer = "string \<Rightarrow> string \<Rightarrow> int"

section \<open>Data\<close>

text \<open>
  One object of \<^verbatim>\<open>country-capital.json\<close>: the keys \<^verbatim>\<open>"country"\<close>, \<^verbatim>\<open>"capital"\<close>
  and \<^verbatim>\<open>"type"\<close>.
\<close>

record entry =
  entry_country :: string
  entry_capital :: string
  entry_type :: string

text \<open>
  The file on disk. \<^verbatim>\<open>open\<close> raises \<^verbatim>\<open>OSError\<close> on a file it cannot open and
  \<^verbatim>\<open>json.load\<close> raises \<^verbatim>\<open>JSONDecodeError\<close> on content that is not JSON.
\<close>

datatype disk_state = Missing | Garbled | Json "entry list"

datatype py_error = OSError | JSONDecodeError | IndexError | KeyError

text \<open>
  One country object of a REST Countries answer, read by the program only through
  \<^verbatim>\<open>['name']['common']\<close>: \<open>None\<close> when that path is absent (the subscript raises
  \<^verbatim>\<open>KeyError\<close>).
\<close>

record country_obj =
  name_common :: "string option"

text \<open>
  What \<^verbatim>\<open>requests.get\<close> does: it raises a \<^verbatim>\<open>RequestException\<close> (connection error,
  timeout) or returns a response with a status code and a body, taken here as already
  decoded by \<^verbatim>\<open>response.json()\<close> into the list of country objects.
\<close>

datatype response = RequestException | Response int "country_obj list"

text \<open>
  The network is a parameter: the answer to a request depends on how many requests the
  process has made before it and on the URL.
\<close>

type_synonym network = "nat \<Rightarrow> string \<Rightarrow> response"

text \<open>
  The module's globals, the file beside it, and the list of URLs requested so far.
  \<open>countryCapital\<close> is the Python dict, kept as an association list in insertion order
  (assigning to a key that is present keeps its place, as \<open>AList.update\<close> does);
  \<open>all_countries_cache\<close> is \<open>None\<close> or the cached list.
\<close>

record state =
  disk :: disk_state
  countryCapital :: "(string \<times> string) list"
  all_countries_cache :: "string list option"
  requests_log :: "string list"

text \<open>The templates the routes render, with the values passed to them.\<close>

datatype view =
    Success_html string string
  | Suggestions_html string "(string \<times> int) list" string
  | Unknown_html string string
  | Invalid_country_html string

section \<open>Start of the process (lines 7 to 16)\<close>

definition read_file :: "disk_state \<Rightarrow> py_error + entry list" where
  "read_file d =
     (case d of Missing \<Rightarrow> Inl OSError | Garbled \<Rightarrow> Inl JSONDecodeError | Json es \<Rightarrow> Inr es)"

definition build_countryCapital ::
  "python_str \<Rightarrow> entry list \<Rightarrow> (string \<times> string) list" where
  "build_countryCapital py es =
     fold (\<lambda>e m. AList.update (lower py (entry_country e)) (entry_capital e) m) es []"

definition startup :: "python_str \<Rightarrow> disk_state \<Rightarrow> py_error + state" where
  "startup py d =
     (case read_file d of
        Inl err \<Rightarrow> Inl err
      | Inr es \<Rightarrow>
          Inr \<lparr>disk = d, countryCapital = build_countryCapital py es,
               all_countries_cache = None, requests_log = []\<rparr>)"

section \<open>The remote directory\<close>

definition url_all :: string where
  "url_all = ''https://restcountries.com/v3.1/all''"

definition url_name :: "string \<Rightarrow> string" where
  "url_name country_name = ''https://restcountries.com/v3.1/name/'' @ country_name"

definition requests_get :: "network \<Rightarrow> state \<Rightarrow> string \<Rightarrow> response \<times> state" where
  "requests_get net st url =
     (net (length (requests_log st)) url, st\<lparr>requests_log := requests_log st @ [url]\<rparr>)"

definition get_all_countries :: "network \<Rightarrow> state \<Rightarrow> (py_error + string list) \<times> state" where
  "get_all_countries net st =
     (case all_countries_cache st of
        Some cached \<Rightarrow> (Inr cached, st)
      | None \<Rightarrow>
          (case requests_get net st url_all of
             (RequestException, st1) \<Rightarrow> (Inr [], st1)
           | (Response status_code data, st1) \<Rightarrow>
               if status_code = 200 then
                 (case those (map name_common data) of
                    None \<Rightarrow> (Inl KeyError, st1)
                  | Some names \<Rightarrow> (Inr names, st1\<lparr>all_countries_cache := Some names\<rparr>))
               else (Inr [], st1)))"

text \<open>
  \<^verbatim>\<open>validate_country\<close> returns \<^verbatim>\<open>(True, name, None)\<close> or \<^verbatim>\<open>(False, None, None)\<close>:
  here \<open>Some name\<close> and \<open>None\<close>.
\<close>

definition validate_country ::
  "network \<Rightarrow> state \<Rightarrow> string \<Rightarrow> (py_error + string option) \<times> state" where
  "validate_country net st country_name =
     (case requests_get net st (url_name country_name) of
        (RequestException, st1) \<Rightarrow> (Inr None, st1)
      | (Response status_code data, st1) \<Rightarrow>
          if status_code = 200 then
            (case data of
               [] \<Rightarrow> (Inl IndexError, st1)
             | c # _ \<Rightarrow>
                 (case name_common c of
                    None \<Rightarrow> (Inl KeyError, st1)
                  | Some name \<Rightarrow> (Inr (Some name), st1)))
          else (Inr None, st1))"

section \<open>Fuzzy matching\<close>

text \<open>
  Modelled from the spec: \<^verbatim>\<open>process.extract\<close> belongs to the fuzzywuzzy library and is
  not under src/. Section 4.4 describes it: every corpus entry is scored against the
  query, the \<open>limit\<close> best are returned by descending score, ties in corpus order. The
  score of a query against an entry (the library's own pre-processing of both strings
  followed by \<^verbatim>\<open>fuzz.ratio\<close>) is the parameter \<open>scorer\<close>.
\<close>

definition process_extract ::
  "scorer \<Rightarrow> string \<Rightarrow> string list \<Rightarrow> nat \<Rightarrow> (string \<times> int) list" where
  "process_extract scorer query choices limit =
     take limit (sort_key (\<lambda>m. - snd m) (map (\<lambda>c. (c, scorer query c)) choices))"

definition find_similar_countries ::
  "scorer \<Rightarrow> network \<Rightarrow> state \<Rightarrow> string \<Rightarrow> int
     \<Rightarrow> (py_error + (string \<times> int) list) \<times> state" where
  "find_similar_countries scorer net st country_name threshold =
     (case get_all_countries net st of
        (Inl err, st1) \<Rightarrow> (Inl err, st1)
      | (Inr all_countries, st1) \<Rightarrow>
          if all_countries = [] then (Inr [], st1)
          else
            (let matches = process_extract scorer country_name all_countries 5
             in (Inr (filter (\<lambda>m. snd m \<ge> threshold) matches), st1)))"

definition find_similar_local_countries ::
  "python_str \<Rightarrow> scorer \<Rightarrow> state \<Rightarrow> string \<Rightarrow> int
     \<Rightarrow> (string \<times> int) list \<times> state" where
  "find_similar_local_countries py scorer st country_name threshold =
     (let local_countries = map fst (countryCapital st)
      in if local_countries = [] then ([], st)
         else
           (let matches = process_extract scorer country_name local_countries 5
            in (map (\<lambda>(m, score). (capitalize py m, score))
                  (filter (\<lambda>(m, score). score \<ge> threshold) matches), st)))"

section \<open>The routes\<close>

definition capital :: "python_str \<Rightarrow> scorer \<Rightarrow> state \<Rightarrow> string \<Rightarrow> view \<times> state" where
  "capital py scorer st form_city =
     (let country = lower py form_city
      in case map_of (countryCapital st) country of
           Some city \<Rightarrow> (Success_html (capitalize py country) city, st)
         | None \<Rightarrow>
             (case find_similar_local_countries py scorer st country 60 of
                (local_suggestions, st1) \<Rightarrow>
                  if local_suggestions \<noteq> []
                  then (Suggestions_html (capitalize py country) local_suggestions [], st1)
                  else (Unknown_html (capitalize py country) [], st1)))"

text \<open>
  Lines 145 to 153 of \<^verbatim>\<open>save\<close>, the same as lines 170 to 178 of \<^verbatim>\<open>confirm_country\<close>:
  read the file, append the new object, write the file back, then assign the key in
  \<open>countryCapital\<close>. The parameter \<open>wr\<close> is what the write does: \<open>None\<close> when it
  completes, \<open>Some d\<close> when it raises \<^verbatim>\<open>OSError\<close> and leaves \<open>d\<close> on disk.
\<close>

definition store_entry ::
  "python_str \<Rightarrow> disk_state option \<Rightarrow> state \<Rightarrow> string \<Rightarrow> string
     \<Rightarrow> (py_error + unit) \<times> state" where
  "store_entry py wr st country city =
     (let countcap = \<lparr>entry_country = country, entry_capital = city,
                      entry_type = ''countryCapital''\<rparr>
      in case read_file (disk st) of
           Inl err \<Rightarrow> (Inl err, st)
         | Inr data \<Rightarrow>
             (case wr of
                Some d \<Rightarrow> (Inl OSError, st\<lparr>disk := d\<rparr>)
              | None \<Rightarrow>
                  (Inr (),
                   st\<lparr>disk := Json (data @ [countcap]),
                      countryCapital :=
                        AList.update (lower py country) city (countryCapital st)\<rparr>)))"

definition save ::
  "python_str \<Rightarrow> scorer \<Rightarrow> network \<Rightarrow> disk_state option \<Rightarrow> state \<Rightarrow> string \<Rightarrow> string
     \<Rightarrow> (py_error + view) \<times> state" where
  "save py scorer net wr st form_country form_city =
     (let country = strip py form_country; city = strip py form_city
      in case validate_country net st country of
           (Inl err, st1) \<Rightarrow> (Inl err, st1)
         | (Inr None, st1) \<Rightarrow>
             (case find_similar_countries scorer net st1 country 50 of
                (Inl err, st2) \<Rightarrow> (Inl err, st2)
              | (Inr similar_countries, st2) \<Rightarrow>
                  if similar_countries \<noteq> []
                  then (Inr (Suggestions_html (capitalize py country) similar_countries city), st2)
                  else (Inr (Invalid_country_html (capitalize py country)), st2))
         | (Inr (Some standardized_name), st1) \<Rightarrow>
             (case store_entry py wr st1 standardized_name (capitalize py city) of
                (Inl err, st2) \<Rightarrow> (Inl err, st2)
              | (Inr _, st2) \<Rightarrow>
                  (Inr (Success_html standardized_name (capitalize py city)), st2)))"

definition confirm_country ::
  "python_str \<Rightarrow> network \<Rightarrow> disk_state option \<Rightarrow> state \<Rightarrow> string \<Rightarrow> string
     \<Rightarrow> (py_error + view) \<times> state" where
  "confirm_country py net wr st form_country form_city =
     (let country = strip py form_country; city = strip py form_city
      in case validate_country net st country of
           (Inl err, st1) \<Rightarrow> (Inl err, st1)
         | (Inr (Some standardized_name), st1) \<Rightarrow>
             (case store_entry py wr st1 standardized_name (capitalize py city) of
                (Inl err, st2) \<Rightarrow> (Inl err, st2)
              | (Inr _, st2) \<Rightarrow>
                  (Inr (Success_html standardized_name (capitalize py city)), st2))
         | (Inr None, st1) \<Rightarrow> (Inr (Invalid_country_html (capitalize py country)), st1))"

section \<open>The operations the specification names\<close>

text \<open>
  \<open>normalize\<close> is the specification's Normalizer: trim, then lowercase. \<open>resolveExact\<close>
  is the city the \<^verbatim>\<open>/capital\<close> route shows when it renders \<^verbatim>\<open>success.html\<close>, and
  nothing otherwise; \<open>suggestLocal\<close> is \<open>find_similar_local_countries\<close> at its default
  threshold of 60.
\<close>

definition normalize :: "python_str \<Rightarrow> string \<Rightarrow> string" where
  "normalize py s = lower py (strip py s)"

definition resolveExact ::
  "python_str \<Rightarrow> scorer \<Rightarrow> state \<Rightarrow> string \<Rightarrow> string option" where
  "resolveExact py scorer st query =
     (case fst (capital py scorer st query) of Success_html _ city \<Rightarrow> Some city | _ \<Rightarrow> None)"

definition suggestLocal ::
  "python_str \<Rightarrow> scorer \<Rightarrow> state \<Rightarrow> string \<Rightarrow> (string \<times> int) list \<times> state" where
  "suggestLocal py scorer st country = find_similar_local_countries py scorer st country 60"

section \<open>The store as the specification speaks of it\<close>

text \<open>
  The specification's words for a lookup over the persisted sequence: among the entries
  whose lowercased country is the key, the capital of the one that comes last.
\<close>

definition last_capital :: "python_str \<Rightarrow> entry list \<Rightarrow> string \<Rightarrow> string option" where
  "last_capital py es key =
     (let same = filter (\<lambda>e. lower py (entry_country e) = key) es
      in if same = [] then None else Some (entry_capital (last same)))"

text \<open>
  The derived mapping is in lockstep with the persisted sequence when the dict is the one
  the start of the process builds from the file.
\<close>

definition in_lockstep :: "python_str \<Rightarrow> state \<Rightarrow> bool" where
  "in_lockstep py st =
     (case disk st of Json es \<Rightarrow> countryCapital st = build_countryCapital py es | _ \<Rightarrow> False)"






section \<open>Example inputs\<close>

text \<open>
  The examples are ASCII text. On ASCII text the three methods are these: \<^verbatim>\<open>lower()\<close>
  maps A to Z onto a to z, \<^verbatim>\<open>capitalize()\<close> puts the first character in upper case
  and the others in lower case, and \<^verbatim>\<open>strip()\<close> removes TAB, LF, VT, FF, CR, FS, GS,
  RS, US and the blank from both ends.
\<close>

definition ascii_uppercase :: string where
  "ascii_uppercase = ''ABCDEFGHIJKLMNOPQRSTUVWXYZ''"

definition ascii_lowercase :: string where
  "ascii_lowercase = ''abcdefghijklmnopqrstuvwxyz''"

definition ascii_lower_char :: "char \<Rightarrow> char" where
  "ascii_lower_char c =
     (case map_of (zip ascii_uppercase ascii_lowercase) c of Some l \<Rightarrow> l | None \<Rightarrow> c)"

definition ascii_upper_char :: "char \<Rightarrow> char" where
  "ascii_upper_char c =
     (case map_of (zip ascii_lowercase ascii_uppercase) c of Some u \<Rightarrow> u | None \<Rightarrow> c)"

definition ascii_lower :: "string \<Rightarrow> string" where
  "ascii_lower s = map ascii_lower_char s"

definition ascii_capitalize :: "string \<Rightarrow> string" where
  "ascii_capitalize s =
     (case s of [] \<Rightarrow> [] | c # cs \<Rightarrow> ascii_upper_char c # map ascii_lower_char cs)"

definition ascii_isspace :: "char \<Rightarrow> bool" where
  "ascii_isspace c =
     (c \<in> set [CHR 0x09, CHR 0x0A, CHR 0x0B, CHR 0x0C, CHR 0x0D,
               CHR 0x1C, CHR 0x1D, CHR 0x1E, CHR 0x1F, CHR '' ''])"

definition ascii_strip :: "string \<Rightarrow> string" where
  "ascii_strip s = rev (dropWhile ascii_isspace (rev (dropWhile ascii_isspace s)))"

definition ascii_str :: python_str where
  "ascii_str = \<lparr>lower = ascii_lower, strip = ascii_strip, capitalize = ascii_capitalize\<rparr>"

definition example_scorer :: scorer where
  "example_scorer query choice = (if query = choice then 100 else 83)"

definition france :: entry where
  "france = \<lparr>entry_country = ''France'', entry_capital = ''Paris'',
             entry_type = ''countryCapital''\<rparr>"

definition store_empty :: state where
  "store_empty = \<lparr>disk = Json [], countryCapital = [],
                  all_countries_cache = None, requests_log = []\<rparr>"

definition store_france :: state where
  "store_france = \<lparr>disk = Json [france], countryCapital = [(''france'', ''Paris'')],
                   all_countries_cache = None, requests_log = []\<rparr>"

definition lyon :: entry where
  "lyon = \<lparr>entry_country = ''france'', entry_capital = ''Lyon'',
           entry_type = ''countryCapital''\<rparr>"

definition padded_france :: entry where
  "padded_france = \<lparr>entry_country = '' France'', entry_capital = ''Lyon'',
                    entry_type = ''countryCapital''\<rparr>"

definition germany :: entry where
  "germany = \<lparr>entry_country = ''Germany'', entry_capital = ''Berlin'',
              entry_type = ''countryCapital''\<rparr>"

definition store_twice :: state where
  "store_twice = \<lparr>disk = Json [france, lyon], countryCapital = [(''france'', ''Lyon'')],
                  all_countries_cache = None, requests_log = []\<rparr>"

definition store_two :: state where
  "store_two = \<lparr>disk = Json [france, germany],
                countryCapital = [(''france'', ''Paris''), (''germany'', ''Berlin'')],
                all_countries_cache = None, requests_log = []\<rparr>"

definition store_padded :: state where
  "store_padded = \<lparr>disk = Json [france, padded_france],
                   countryCapital = [(''france'', ''Paris''), ('' france'', ''Lyon'')],
                   all_countries_cache = None, requests_log = []\<rparr>"

definition store_cached :: state where
  "store_cached = \<lparr>disk = Json [france], countryCapital = [(''france'', ''Paris'')],
                   all_countries_cache = Some [''France'', ''Germany''], requests_log = []\<rparr>"

definition net_down :: network where
  "net_down n url = RequestException"

definition net_404 :: network where
  "net_404 n url = Response 404 []"

definition net_germany :: network where
  "net_germany n url = Response 200 [\<lparr>name_common = Some ''Germany''\<rparr>]"

definition net_padded :: network where
  "net_padded n url = Response 200 [\<lparr>name_common = Some '' Germany''\<rparr>]"

definition net_france :: network where
  "net_france n url = Response 200 [\<lparr>name_common = Some ''France''\<rparr>]"


definition net_malformed :: network where
  "net_malformed n url =
     Response 200 [\<lparr>name_common = Some ''France''\<rparr>, \<lparr>name_common = None\<rparr>]"

section \<open>Facts about the dict\<close>

lemma build_snoc:
  "build_countryCapital py (es @ [e]) =
     AList.update (lower py (entry_country e)) (entry_capital e) (build_countryCapital py es)"
  by (simp add: build_countryCapital_def)

lemma last_capital_snoc:
  "last_capital py (es @ [e]) key =
     (if lower py (entry_country e) = key then Some (entry_capital e) else last_capital py es key)"
  by (simp add: last_capital_def Let_def)

lemma map_of_build: "map_of (build_countryCapital py es) key = last_capital py es key"
proof (induction es rule: rev_induct)
  case Nil
  show ?case by (simp add: build_countryCapital_def last_capital_def)
next
  case (snoc e es)
  then show ?case by (simp add: build_snoc last_capital_snoc update_conv')
qed


lemma last_capital_split:
  assumes "\<forall>y \<in> set ys. lower py (entry_country y) \<noteq> lower py (entry_country e)"
  shows "last_capital py (xs @ e # ys) (lower py (entry_country e)) = Some (entry_capital e)"
proof -
  have "filter (\<lambda>x. lower py (entry_country x) = lower py (entry_country e)) ys = []"
    using assms by (simp add: filter_empty_conv)
  then show ?thesis
    by (simp add: last_capital_def Let_def)
qed

lemma resolveExact_eq:
  "resolveExact py scorer st query = map_of (countryCapital st) (lower py query)"
  by (simp add: resolveExact_def capital_def find_similar_local_countries_def Let_def
      split: option.splits prod.splits)

lemma capital_state: "snd (capital py scorer st query) = st"
  by (simp add: capital_def find_similar_local_countries_def Let_def
      split: option.splits prod.splits)

lemmas str_defs = ascii_str_def ascii_lower_def ascii_lower_char_def ascii_upper_char_def
  ascii_capitalize_def ascii_strip_def ascii_isspace_def ascii_uppercase_def ascii_lowercase_def
  normalize_def

section \<open>What each operation does to the state\<close>

lemma validate_country_state:
  "snd (validate_country net st name) = st\<lparr>requests_log := requests_log st @ [url_name name]\<rparr>"
  by (simp add: validate_country_def requests_get_def
      split: response.splits list.splits option.splits)

lemma get_all_countries_frame:
  "countryCapital (snd (get_all_countries net st)) = countryCapital st \<and>
   disk (snd (get_all_countries net st)) = disk st"
  by (simp add: get_all_countries_def requests_get_def
      split: response.splits option.splits)

lemma find_similar_countries_frame:
  "countryCapital (snd (find_similar_countries scorer net st name threshold)) = countryCapital st \<and>
   disk (snd (find_similar_countries scorer net st name threshold)) = disk st"
  using get_all_countries_frame [of net st]
  by (auto simp add: find_similar_countries_def Let_def split: prod.splits sum.splits)

lemma store_entry_failed_write:
  "countryCapital (snd (store_entry py (Some d) st country city)) = countryCapital st"
  by (simp add: store_entry_def Let_def split: sum.splits)

lemma store_entry_failed_write_error:
  "disk st = Json es \<Longrightarrow> fst (store_entry py (Some d) st country city) = Inl OSError"
  by (simp add: store_entry_def read_file_def Let_def)

lemma store_entry_written:
  "disk st = Json es \<Longrightarrow>
   store_entry py None st country city =
     (Inr (), st\<lparr>disk := Json (es @ [\<lparr>entry_country = country, entry_capital = city,
                                        entry_type = ''countryCapital''\<rparr>]),
                countryCapital := AList.update (lower py country) city (countryCapital st)\<rparr>)"
  by (simp add: store_entry_def read_file_def Let_def)

lemma save_failed_write_mapping:
  "countryCapital (snd (save py scorer net (Some d) st form_country form_city))
     = countryCapital st"
proof -
  obtain r st1 where v: "validate_country net st (strip py form_country) = (r, st1)"
    by (cases "validate_country net st (strip py form_country)")
  have st1: "countryCapital st1 = countryCapital st"
    using validate_country_state [of net st "strip py form_country"] v by simp
  show ?thesis
  proof (cases r)
    case (Inl err)
    with v st1 show ?thesis by (simp add: save_def Let_def)
  next
    case (Inr found)
    show ?thesis
    proof (cases found)
      case None
      obtain s st2 where f:
        "find_similar_countries scorer net st1 (strip py form_country) 50 = (s, st2)"
        by (cases "find_similar_countries scorer net st1 (strip py form_country) 50")
      have "countryCapital st2 = countryCapital st1"
        using find_similar_countries_frame [of scorer net st1 "strip py form_country" 50] f by simp
      with v st1 Inr None f show ?thesis
        by (auto simp add: save_def Let_def split: sum.splits)
    next
      case (Some standardized_name)
      have "countryCapital (snd (store_entry py (Some d) st1 standardized_name
              (capitalize py (strip py form_city)))) = countryCapital st1"
        by (rule store_entry_failed_write)
      with v st1 Inr Some show ?thesis
        by (auto simp add: save_def Let_def split: sum.splits prod.splits)
    qed
  qed
qed

lemma confirm_country_failed_write_mapping:
  "countryCapital (snd (confirm_country py net (Some d) st form_country form_city))
     = countryCapital st"
proof -
  obtain r st1 where v: "validate_country net st (strip py form_country) = (r, st1)"
    by (cases "validate_country net st (strip py form_country)")
  have st1: "countryCapital st1 = countryCapital st"
    using validate_country_state [of net st "strip py form_country"] v by simp
  show ?thesis
  proof (cases r)
    case (Inl err)
    with v st1 show ?thesis by (simp add: confirm_country_def Let_def)
  next
    case (Inr found)
    show ?thesis
    proof (cases found)
      case None
      with v st1 Inr show ?thesis by (simp add: confirm_country_def Let_def)
    next
      case (Some standardized_name)
      have "countryCapital (snd (store_entry py (Some d) st1 standardized_name
              (capitalize py (strip py form_city)))) = countryCapital st1"
        by (rule store_entry_failed_write)
      with v st1 Inr Some show ?thesis
        by (auto simp add: confirm_country_def Let_def split: sum.splits prod.splits)
    qed
  qed
qed

lemma save_validated:
  assumes "fst (validate_country net st (strip py form_country)) = Inr (Some canonical)"
  shows "save py scorer net wr st form_country form_city =
     (case store_entry py wr (st\<lparr>requests_log := requests_log st @ [url_name (strip py form_country)]\<rparr>)
             canonical (capitalize py (strip py form_city)) of
        (Inl err, st2) \<Rightarrow> (Inl err, st2)
      | (Inr _, st2) \<Rightarrow> (Inr (Success_html canonical (capitalize py (strip py form_city))), st2))"
proof -
  have "validate_country net st (strip py form_country) =
      (Inr (Some canonical), st\<lparr>requests_log := requests_log st @ [url_name (strip py form_country)]\<rparr>)"
    using assms validate_country_state [of net st "strip py form_country"]
    by (cases "validate_country net st (strip py form_country)") simp
  then show ?thesis by (simp add: save_def Let_def)
qed

lemma confirm_country_validated:
  assumes "fst (validate_country net st (strip py form_country)) = Inr (Some canonical)"
  shows "confirm_country py net wr st form_country form_city =
     (case store_entry py wr (st\<lparr>requests_log := requests_log st @ [url_name (strip py form_country)]\<rparr>)
             canonical (capitalize py (strip py form_city)) of
        (Inl err, st2) \<Rightarrow> (Inl err, st2)
      | (Inr _, st2) \<Rightarrow> (Inr (Success_html canonical (capitalize py (strip py form_city))), st2))"
proof -
  have "validate_country net st (strip py form_country) =
      (Inr (Some canonical), st\<lparr>requests_log := requests_log st @ [url_name (strip py form_country)]\<rparr>)"
    using assms validate_country_state [of net st "strip py form_country"]
    by (cases "validate_country net st (strip py form_country)") simp
  then show ?thesis by (simp add: confirm_country_def Let_def)
qed

section \<open>The remote directory isolates network failure\<close>

text \<open>
  C6, as amended. \<open>get_all_countries\<close> returns the cached list and leaves the state as
  it is (no request) whenever the cache is set. With the cache unset it makes exactly one
  request to the list URL. If the answer has status 200 and every country object in it
  carries \<^verbatim>\<open>name.common\<close>, the names become the result and the cache; if one object
  lacks it, the call ends in \<^verbatim>\<open>KeyError\<close> with the cache unset. If the request
  raises or the status is not 200, the result is the empty list (a value, not an error),
  the cache stays unset, and the next call makes the request again.
\<close>

theorem get_all_countries_cache:
  "(\<forall>cached. all_countries_cache st = Some cached
      \<longrightarrow> get_all_countries net st = (Inr cached, st)) \<and>
   (all_countries_cache st = None
      \<longrightarrow> requests_log (snd (get_all_countries net st)) = requests_log st @ [url_all]) \<and>
   (\<forall>data names.
      all_countries_cache st = None \<and>
      net (length (requests_log st)) url_all = Response 200 data \<and>
      those (map name_common data) = Some names
      \<longrightarrow> fst (get_all_countries net st) = Inr names \<and>
          all_countries_cache (snd (get_all_countries net st)) = Some names) \<and>
   (\<forall>data.
      all_countries_cache st = None \<and>
      net (length (requests_log st)) url_all = Response 200 data \<and>
      those (map name_common data) = None
      \<longrightarrow> fst (get_all_countries net st) = Inl KeyError \<and>
          all_countries_cache (snd (get_all_countries net st)) = None) \<and>
   (all_countries_cache st = None \<and>
    (net (length (requests_log st)) url_all = RequestException \<or>
     (\<exists>status_code data. net (length (requests_log st)) url_all = Response status_code data \<and>
        status_code \<noteq> 200))
      \<longrightarrow> fst (get_all_countries net st) = Inr [] \<and>
          all_countries_cache (snd (get_all_countries net st)) = None \<and>
          requests_log (snd (get_all_countries net (snd (get_all_countries net st))))
            = requests_log st @ [url_all, url_all])"
  by (auto simp add: get_all_countries_def requests_get_def
      split: response.splits option.splits if_splits)

theorem get_all_countries_cache_witness:
  "get_all_countries net_down store_cached = (Inr [''France'', ''Germany''], store_cached) \<and>
   fst (get_all_countries net_germany store_empty) = Inr [''Germany''] \<and>
   all_countries_cache (snd (get_all_countries net_germany store_empty)) = Some [''Germany''] \<and>
   requests_log (snd (get_all_countries net_germany store_empty)) = [url_all] \<and>
   fst (get_all_countries net_malformed store_empty) = Inl KeyError \<and>
   fst (get_all_countries net_down store_empty) = Inr [] \<and>
   all_countries_cache (snd (get_all_countries net_down store_empty)) = None \<and>
   fst (get_all_countries net_404 store_empty) = Inr [] \<and>
   all_countries_cache (snd (get_all_countries net_404 store_empty)) = None \<and>
   requests_log (snd (get_all_countries net_404 (snd (get_all_countries net_404 store_empty))))
     = [url_all, url_all]"
  using get_all_countries_cache [of store_cached net_down]
    get_all_countries_cache [of store_empty net_germany]
    get_all_countries_cache [of store_empty net_malformed]
    get_all_countries_cache [of store_empty net_down]
    get_all_countries_cache [of store_empty net_404]
  by (simp add: store_cached_def store_empty_def net_down_def net_404_def net_germany_def
      net_malformed_def)

text \<open>
  A status-200 answer in which one country object has no \<^verbatim>\<open>name.common\<close>: the call
  ends in \<^verbatim>\<open>KeyError\<close>, the list is not returned and the cache is not set.
\<close>

theorem get_all_countries_keyerror_counterexample:
  "all_countries_cache store_empty = None \<and>
   net_malformed (length (requests_log store_empty)) url_all
     = Response 200 [\<lparr>name_common = Some ''France''\<rparr>, \<lparr>name_common = None\<rparr>] \<and>
   fst (get_all_countries net_malformed store_empty) = Inl KeyError \<and>
   all_countries_cache (snd (get_all_countries net_malformed store_empty)) = None"
  by (simp add: get_all_countries_def requests_get_def store_empty_def net_malformed_def)

text \<open>
  C8. \<open>validate_country\<close> answers "not found" (the value \<open>Inr None\<close>, never an error)
  when the request raises and when the status is not 200; whenever it answers with a
  canonical name, the response had status 200 and the name is the common name of its
  first country object.
\<close>

theorem validate_country_not_found:
  "(net (length (requests_log st)) (url_name name) = RequestException
      \<longrightarrow> fst (validate_country net st name) = Inr None) \<and>
   (\<forall>status_code data.
      net (length (requests_log st)) (url_name name) = Response status_code data \<and>
      status_code \<noteq> 200
      \<longrightarrow> fst (validate_country net st name) = Inr None) \<and>
   (\<forall>canonical.
      fst (validate_country net st name) = Inr (Some canonical)
      \<longrightarrow> (\<exists>c rest. net (length (requests_log st)) (url_name name) = Response 200 (c # rest) \<and>
             name_common c = Some canonical))"
  by (auto simp add: validate_country_def requests_get_def
      split: response.splits list.splits option.splits if_splits)

theorem validate_country_not_found_witness:
  "fst (validate_country net_down store_empty ''Atlantis'') = Inr None \<and>
   fst (validate_country net_404 store_empty ''Atlantis'') = Inr None \<and>
   fst (validate_country net_germany store_empty ''Deutschland'') = Inr (Some ''Germany'') \<and>
   net_germany (length (requests_log store_empty)) (url_name ''Deutschland'')
     = Response 200 [\<lparr>name_common = Some ''Germany''\<rparr>]"
  using validate_country_not_found [of net_down store_empty "''Atlantis''"]
    validate_country_not_found [of net_404 store_empty "''Atlantis''"]
    validate_country_not_found [of net_germany store_empty "''Deutschland''"]
  by (simp add: net_down_def net_404_def net_germany_def validate_country_def requests_get_def)

section \<open>A failed write\<close>

text \<open>
  C7. When the write of the file fails, \<open>countryCapital\<close> after \<open>save\<close> and after
  \<open>confirm_country\<close> is the one before, so every lookup answers as before; and a
  validated request on a readable file does end in the error of the write.
\<close>

theorem failed_write_keeps_mapping:
  assumes "wr = Some d"
  shows "countryCapital (snd (save py scorer net wr st form_country form_city))
       = countryCapital st \<and>
     countryCapital (snd (confirm_country py net wr st form_country form_city))
       = countryCapital st \<and>
     resolveExact py scorer (snd (save py scorer net wr st form_country form_city)) query
       = resolveExact py scorer st query \<and>
     resolveExact py scorer (snd (confirm_country py net wr st form_country form_city)) query
       = resolveExact py scorer st query \<and>
     (\<forall>canonical es.
        fst (validate_country net st (strip py form_country)) = Inr (Some canonical) \<and>
        disk st = Json es
        \<longrightarrow> fst (save py scorer net wr st form_country form_city) = Inl OSError \<and>
            fst (confirm_country py net wr st form_country form_city) = Inl OSError)"
proof -
  have m1: "countryCapital (snd (save py scorer net wr st form_country form_city))
      = countryCapital st"
    using assms save_failed_write_mapping by simp
  have m2: "countryCapital (snd (confirm_country py net wr st form_country form_city))
      = countryCapital st"
    using assms confirm_country_failed_write_mapping by simp
  have e: "fst (save py scorer net wr st form_country form_city) = Inl OSError \<and>
           fst (confirm_country py net wr st form_country form_city) = Inl OSError"
    if v: "fst (validate_country net st (strip py form_country)) = Inr (Some canonical)"
      and d: "disk st = Json es" for canonical es
  proof -
    let ?st1 = "st\<lparr>requests_log := requests_log st @ [url_name (strip py form_country)]\<rparr>"
    have "disk ?st1 = Json es" using d by simp
    then have "fst (store_entry py (Some d) ?st1 canonical (capitalize py (strip py form_city)))
        = Inl OSError"
      by (rule store_entry_failed_write_error)
    then show ?thesis
      using assms save_validated [OF v, of scorer wr form_city]
        confirm_country_validated [OF v, of wr form_city]
      by (simp split: prod.splits sum.splits)
  qed
  show ?thesis
    using m1 m2 e by (simp add: resolveExact_eq)
qed

theorem failed_write_keeps_mapping_witness:
  "countryCapital (snd (save ascii_str example_scorer net_germany (Some Garbled) store_france
      ''Deutschland'' ''berlin'')) = [(''france'', ''Paris'')] \<and>
   fst (save ascii_str example_scorer net_germany (Some Garbled) store_france
      ''Deutschland'' ''berlin'') = Inl OSError \<and>
   resolveExact ascii_str example_scorer
     (snd (save ascii_str example_scorer net_germany (Some Garbled) store_france
        ''Deutschland'' ''berlin'')) ''germany'' = None"
proof -
  have v: "fst (validate_country net_germany store_france (strip ascii_str ''Deutschland''))
      = Inr (Some ''Germany'')"
    by (simp add: validate_country_def requests_get_def net_germany_def)
  have d: "disk store_france = Json [france]"
    by (simp add: store_france_def)
  have r: "resolveExact ascii_str example_scorer store_france ''germany'' = None"
    by (simp add: resolveExact_eq store_france_def str_defs)
  have c: "countryCapital store_france = [(''france'', ''Paris'')]"
    by (simp add: store_france_def)
  show ?thesis
    using failed_write_keeps_mapping [where wr = "Some Garbled" and d = Garbled
        and py = ascii_str and scorer = example_scorer and net = net_germany
        and st = store_france and form_country = "''Deutschland''"
        and form_city = "''berlin''" and query = "''germany''"] v d r c
    by simp
qed

section \<open>The local query path\<close>

text \<open>
  C9. The \<^verbatim>\<open>/capital\<close> route, from which \<open>resolveExact\<close> reads its answer, and
  \<open>suggestLocal\<close> return the state they were given: the file, the dict, the cache and
  the list of requests made are all unchanged, so no request goes out.
\<close>

theorem local_query_no_effects:
  "snd (capital py scorer st query) = st \<and> snd (suggestLocal py scorer st query) = st"
  by (simp add: capital_state suggestLocal_def find_similar_local_countries_def Let_def)

section \<open>The dict stays in lockstep with the file\<close>

lemma in_lockstep_frame:
  "disk st' = disk st \<Longrightarrow> countryCapital st' = countryCapital st \<Longrightarrow>
   in_lockstep py st' = in_lockstep py st"
  by (simp add: in_lockstep_def split: disk_state.splits)

lemma in_lockstepD:
  "in_lockstep py st \<Longrightarrow> \<exists>es. disk st = Json es \<and> countryCapital st = build_countryCapital py es"
  by (cases "disk st") (simp_all add: in_lockstep_def)

lemma startup_in_lockstep: "startup py d = Inr st \<Longrightarrow> in_lockstep py st \<and> disk st = d"
  by (cases d) (auto simp add: startup_def read_file_def in_lockstep_def)

lemma store_entry_lockstep:
  assumes "in_lockstep py st"
  shows "in_lockstep py (snd (store_entry py None st country city))"
proof -
  from in_lockstepD [OF assms] obtain es
    where es: "disk st = Json es" "countryCapital st = build_countryCapital py es" by blast
  show ?thesis
    by (simp add: store_entry_written [OF es(1)] in_lockstep_def es(2) build_snoc)
qed

lemma validate_country_lockstep:
  "in_lockstep py (snd (validate_country net st name)) = in_lockstep py st"
  by (rule in_lockstep_frame) (simp_all add: validate_country_state)

lemma find_similar_countries_lockstep:
  "in_lockstep py (snd (find_similar_countries scorer net st name threshold)) = in_lockstep py st"
  by (rule in_lockstep_frame) (simp_all add: find_similar_countries_frame)

lemma save_lockstep:
  assumes "in_lockstep py st"
  shows "in_lockstep py (snd (save py scorer net None st form_country form_city))"
proof -
  obtain r st1 where v: "validate_country net st (strip py form_country) = (r, st1)"
    by (cases "validate_country net st (strip py form_country)")
  have st1: "in_lockstep py st1"
    using validate_country_lockstep [of py net st "strip py form_country"] v assms by simp
  show ?thesis
  proof (cases r)
    case (Inl err)
    with v st1 show ?thesis by (simp add: save_def Let_def)
  next
    case (Inr found)
    show ?thesis
    proof (cases found)
      case None
      obtain s st2 where f:
        "find_similar_countries scorer net st1 (strip py form_country) 50 = (s, st2)"
        by (cases "find_similar_countries scorer net st1 (strip py form_country) 50")
      have "in_lockstep py st2"
        using find_similar_countries_lockstep [of py scorer net st1 "strip py form_country" 50] f st1
        by simp
      with v Inr None f show ?thesis
        by (auto simp add: save_def Let_def split: sum.splits)
    next
      case (Some standardized_name)
      have "in_lockstep py (snd (store_entry py None st1 standardized_name
              (capitalize py (strip py form_city))))"
        using st1 by (rule store_entry_lockstep)
      with v Inr Some show ?thesis
        by (auto simp add: save_def Let_def split: sum.splits prod.splits)
    qed
  qed
qed




lemma save_success:
  assumes "fst (save py scorer net wr st form_country form_city)
      = Inr (Success_html canonical city)"
  shows "fst (validate_country net st (strip py form_country)) = Inr (Some canonical) \<and>
     city = capitalize py (strip py form_city)"
  using assms
  by (auto simp add: save_def Let_def split: prod.splits sum.splits option.splits if_splits)


lemma save_written:
  assumes "fst (validate_country net st (strip py form_country)) = Inr (Some canonical)"
    and "disk st = Json es"
  shows "save py scorer net None st form_country form_city =
     (Inr (Success_html canonical (capitalize py (strip py form_city))),
      st\<lparr>requests_log := requests_log st @ [url_name (strip py form_country)],
         disk := Json (es @ [\<lparr>entry_country = canonical,
                               entry_capital = capitalize py (strip py form_city),
                               entry_type = ''countryCapital''\<rparr>]),
         countryCapital := AList.update (lower py canonical) (capitalize py (strip py form_city))
                             (countryCapital st)\<rparr>)"
proof -
  let ?st1 = "st\<lparr>requests_log := requests_log st @ [url_name (strip py form_country)]\<rparr>"
  have "disk ?st1 = Json es" using assms(2) by simp
  from store_entry_written [OF this] show ?thesis
    by (simp add: save_validated [OF assms(1)])
qed



section \<open>Facts about the example inputs\<close>

lemma lockstep_france: "in_lockstep ascii_str store_france"
  by (simp add: in_lockstep_def store_france_def build_countryCapital_def france_def str_defs)

lemma lockstep_twice: "in_lockstep ascii_str store_twice"
  by (simp add: in_lockstep_def store_twice_def build_countryCapital_def france_def lyon_def
      str_defs)

lemma lockstep_two: "in_lockstep ascii_str store_two"
  by (simp add: in_lockstep_def store_two_def build_countryCapital_def france_def germany_def
      str_defs)

lemma lockstep_padded: "in_lockstep ascii_str store_padded"
  by (simp add: in_lockstep_def store_padded_def build_countryCapital_def france_def
      padded_france_def str_defs)

lemma validate_germany:
  "fst (validate_country net_germany st (strip ascii_str ''Deutschland'')) = Inr (Some ''Germany'')"
  by (simp add: validate_country_def requests_get_def net_germany_def)

lemma validate_padded:
  "fst (validate_country net_padded st (strip ascii_str ''Deutschland'')) = Inr (Some '' Germany'')"
  by (simp add: validate_country_def requests_get_def net_padded_def)

lemma validate_france:
  "fst (validate_country net_france st (strip ascii_str name)) = Inr (Some ''France'')"
  by (simp add: validate_country_def requests_get_def net_france_def)





lemma startup_twice: "startup ascii_str (Json [france, lyon]) = Inr store_twice"
  by (simp add: startup_def read_file_def build_countryCapital_def store_twice_def
      france_def lyon_def str_defs)

lemma startup_padded: "startup ascii_str (Json [france, padded_france]) = Inr store_padded"
  by (simp add: startup_def read_file_def build_countryCapital_def store_padded_def
      france_def padded_france_def str_defs)

section \<open>Exact lookup\<close>

text \<open>
  C1, as amended. In a state whose dict is in lockstep with the file, take a stored
  entry that no later entry repeats under the same lowercased country. Then
  \<open>resolveExact\<close> returns the entry's capital on every query that \<^verbatim>\<open>lower()\<close> maps
  to the same string as the entry's country, and on the normalized country when that
  holds of it; two queries with the same lowercased form get the same answer. The route
  lowercases the query and does not trim it.
\<close>

theorem resolveExact_case_variants:
  assumes "in_lockstep py st"
    and "disk st = Json (xs @ e # ys)"
    and "\<forall>y \<in> set ys. lower py (entry_country y) \<noteq> lower py (entry_country e)"
    and "lower py query = lower py (entry_country e)"
  shows "resolveExact py scorer st query = Some (entry_capital e) \<and>
     (lower py (normalize py (entry_country e)) = lower py (entry_country e)
        \<longrightarrow> resolveExact py scorer st (normalize py (entry_country e))
              = Some (entry_capital e)) \<and>
     (\<forall>other. lower py other = lower py query
        \<longrightarrow> resolveExact py scorer st other = resolveExact py scorer st query)"
proof -
  from in_lockstepD [OF assms(1)] assms(2)
  have m: "countryCapital st = build_countryCapital py (xs @ e # ys)" by auto
  have hit: "resolveExact py scorer st q = Some (entry_capital e)"
    if "lower py q = lower py (entry_country e)" for q
    using that last_capital_split [OF assms(3), of xs]
    by (simp add: resolveExact_eq m map_of_build)
  have "resolveExact py scorer st query = Some (entry_capital e)"
    using assms(4) by (rule hit)
  moreover have "resolveExact py scorer st (normalize py (entry_country e))
      = Some (entry_capital e)"
    if "lower py (normalize py (entry_country e)) = lower py (entry_country e)"
    using that by (rule hit)
  moreover have "resolveExact py scorer st other = resolveExact py scorer st query"
    if "lower py other = lower py query" for other
    using that by (simp add: resolveExact_eq)
  ultimately show ?thesis by blast
qed

theorem resolveExact_case_variants_witness:
  "in_lockstep ascii_str store_two \<and> disk store_two = Json ([] @ france # [germany]) \<and>
   lower ascii_str (entry_country germany) \<noteq> lower ascii_str (entry_country france) \<and>
   lower ascii_str ''FRANCE'' = lower ascii_str (entry_country france) \<and>
   resolveExact ascii_str example_scorer store_two ''FRANCE'' = Some ''Paris'' \<and>
   resolveExact ascii_str example_scorer store_two (normalize ascii_str ''France'')
     = Some ''Paris'' \<and>
   resolveExact ascii_str example_scorer store_two ''fRance''
     = resolveExact ascii_str example_scorer store_two ''FRANCE''"
proof -
  have d: "disk store_two = Json ([] @ france # [germany])"
    by (simp add: store_two_def)
  have l: "lower ascii_str ''FRANCE'' = lower ascii_str (entry_country france)"
    by (simp add: france_def str_defs)
  have l2: "lower ascii_str ''fRance'' = lower ascii_str ''FRANCE''"
    by (simp add: str_defs)
  have n: "lower ascii_str (normalize ascii_str (entry_country france))
      = lower ascii_str (entry_country france)"
    by (simp add: france_def str_defs)
  have c: "entry_capital france = ''Paris''" "entry_country france = ''France''"
    by (simp_all add: france_def)
  have g: "lower ascii_str (entry_country germany) \<noteq> lower ascii_str (entry_country france)"
    by (simp add: france_def germany_def str_defs)
  then have later:
    "\<forall>y \<in> set [germany]. lower ascii_str (entry_country y) \<noteq> lower ascii_str (entry_country france)"
    by simp
  from resolveExact_case_variants [OF lockstep_two d later l, of example_scorer] l2 n c
    lockstep_two d l g
  show ?thesis by simp
qed

text \<open>
  The claim as written fails twice: a query with surrounding whitespace misses the
  entry, and of two entries with the same lowercased country the first one's capital is
  not the one returned.
\<close>

theorem resolveExact_whitespace_counterexample:
  "in_lockstep ascii_str store_france \<and> disk store_france = Json [france] \<and>
   strip ascii_str '' France '' = entry_country france \<and>
   resolveExact ascii_str example_scorer store_france '' France '' = None \<and>
   in_lockstep ascii_str store_twice \<and> disk store_twice = Json [france, lyon] \<and>
   entry_capital france = ''Paris'' \<and>
   resolveExact ascii_str example_scorer store_twice (entry_country france) = Some ''Lyon''"
proof -
  have "strip ascii_str '' France '' = entry_country france"
    by (simp add: france_def str_defs)
  moreover have "resolveExact ascii_str example_scorer store_france '' France '' = None"
    by (simp add: resolveExact_eq store_france_def str_defs)
  moreover have "resolveExact ascii_str example_scorer store_twice (entry_country france)
      = Some ''Lyon''"
    by (simp add: resolveExact_eq store_twice_def france_def str_defs)
  ultimately show ?thesis
    using lockstep_france lockstep_twice
    by (simp add: store_france_def store_twice_def france_def)
qed

text \<open>
  C10, as amended. In a state in lockstep with the sequence \<open>es\<close>, \<open>resolveExact\<close>
  answers with the capital of the last entry of \<open>es\<close> whose lowercased country is the
  lowercased query, and with nothing if there is none. The start of the process yields
  such a state, and a successful \<open>save\<close> yields one for the sequence with the new entry
  appended, whose capital is then the answer for its key. The key is the lowercased
  country; surrounding whitespace is part of it.
\<close>

theorem lookup_last_entry_wins:
  assumes "in_lockstep py st"
    and "disk st = Json es"
  shows "resolveExact py scorer st query = last_capital py es (lower py query) \<and>
     (\<forall>st0. startup py (Json es) = Inr st0 \<longrightarrow> in_lockstep py st0 \<and> disk st0 = Json es) \<and>
     (\<forall>canonical city.
        fst (save py scorer net None st form_country form_city) = Inr (Success_html canonical city)
        \<longrightarrow> in_lockstep py (snd (save py scorer net None st form_country form_city)) \<and>
            disk (snd (save py scorer net None st form_country form_city))
              = Json (es @ [\<lparr>entry_country = canonical, entry_capital = city,
                               entry_type = ''countryCapital''\<rparr>]) \<and>
            resolveExact py scorer (snd (save py scorer net None st form_country form_city)) query
              = (if lower py query = lower py canonical then Some city
                 else resolveExact py scorer st query))"
proof -
  from in_lockstepD [OF assms(1)] assms(2)
  have m: "countryCapital st = build_countryCapital py es" by auto
  have look: "resolveExact py scorer st query = last_capital py es (lower py query)"
    by (simp add: resolveExact_eq m map_of_build)
  have load: "in_lockstep py st0 \<and> disk st0 = Json es" if "startup py (Json es) = Inr st0" for st0
    using that by (rule startup_in_lockstep)
  have ins: "in_lockstep py (snd (save py scorer net None st form_country form_city)) \<and>
            disk (snd (save py scorer net None st form_country form_city))
              = Json (es @ [\<lparr>entry_country = canonical, entry_capital = city,
                               entry_type = ''countryCapital''\<rparr>]) \<and>
            resolveExact py scorer (snd (save py scorer net None st form_country form_city)) query
              = (if lower py query = lower py canonical then Some city
                 else resolveExact py scorer st query)"
    if ok: "fst (save py scorer net None st form_country form_city)
              = Inr (Success_html canonical city)"
    for canonical city
  proof -
    from save_success [OF ok]
    have v: "fst (validate_country net st (strip py form_country)) = Inr (Some canonical)"
      and c: "city = capitalize py (strip py form_city)" by simp_all
    have "in_lockstep py (snd (save py scorer net None st form_country form_city))"
      using assms(1) by (rule save_lockstep)
    then show ?thesis
      by (auto simp add: save_written [OF v assms(2)] c resolveExact_eq update_conv')
  qed
  show ?thesis
    using look load ins by blast
qed

theorem lookup_last_entry_wins_witness:
  "in_lockstep ascii_str store_twice \<and> disk store_twice = Json [france, lyon] \<and>
   startup ascii_str (Json [france, lyon]) = Inr store_twice \<and>
   lower ascii_str (entry_country france) = lower ascii_str (entry_country lyon) \<and>
   resolveExact ascii_str example_scorer store_twice ''FRANCE'' = Some ''Lyon'' \<and>
   last_capital ascii_str [france, lyon] (lower ascii_str ''FRANCE'')
     = Some (entry_capital lyon) \<and>
   fst (save ascii_str example_scorer net_france None store_twice ''france'' ''paris'')
     = Inr (Success_html ''France'' ''Paris'') \<and>
   resolveExact ascii_str example_scorer
     (snd (save ascii_str example_scorer net_france None store_twice ''france'' ''paris''))
     ''FRANCE'' = Some ''Paris''"
proof -
  have d: "disk store_twice = Json [france, lyon]"
    by (simp add: store_twice_def)
  have c: "capitalize ascii_str (strip ascii_str ''paris'') = ''Paris''"
    by (simp add: str_defs)
  have ok: "fst (save ascii_str example_scorer net_france None store_twice ''france'' ''paris'')
      = Inr (Success_html ''France'' ''Paris'')"
    by (simp add: save_written [OF validate_france d] c)
  have l: "lower ascii_str ''FRANCE'' = ''france''" "lower ascii_str ''France'' = ''france''"
    "lower ascii_str (entry_country france) = lower ascii_str (entry_country lyon)"
    by (simp_all add: str_defs france_def lyon_def)
  have lc: "last_capital ascii_str [france, lyon] ''france'' = Some (entry_capital lyon)"
    by (simp add: last_capital_def france_def lyon_def str_defs)
  have e: "entry_capital lyon = ''Lyon''"
    by (simp add: lyon_def)
  from lookup_last_entry_wins [OF lockstep_twice d, where scorer = example_scorer
      and query = "''FRANCE''" and net = net_france and form_country = "''france''"
      and form_city = "''paris''"] ok l lc e lockstep_twice d startup_twice
  show ?thesis by simp
qed

text \<open>
  Two entries equal after trimming and lowercasing, but not after lowercasing alone,
  keep two keys: the lookup of \<open>''france''\<close> answers with the first one's capital.
\<close>

theorem lookup_padded_counterexample:
  "startup ascii_str (Json [france, padded_france]) = Inr store_padded \<and>
   normalize ascii_str (entry_country france) = normalize ascii_str ''france'' \<and>
   normalize ascii_str (entry_country padded_france) = normalize ascii_str ''france'' \<and>
   entry_capital padded_france = ''Lyon'' \<and>
   resolveExact ascii_str example_scorer store_padded ''france'' = Some ''Paris''"
proof -
  have "normalize ascii_str (entry_country france) = normalize ascii_str ''france''"
    "normalize ascii_str (entry_country padded_france) = normalize ascii_str ''france''"
    by (simp_all add: france_def padded_france_def str_defs)
  moreover have "resolveExact ascii_str example_scorer store_padded ''france'' = Some ''Paris''"
    by (simp add: resolveExact_eq store_padded_def str_defs)
  ultimately show ?thesis
    using startup_padded by (simp add: padded_france_def)
qed

section \<open>Validate, then persist\<close>

text \<open>
  C2, as amended. When validation answers with the canonical name and the file is
  readable and the write completes, \<open>save\<close> renders the success page, the file holds
  the old entries followed by a new one whose country is the canonical name and whose
  capital is the capitalized, trimmed capital, and \<open>resolveExact\<close> returns that
  capital on the canonical name and on every query with the same lowercased form; on the
  normalized canonical name it does so when lowercasing it gives the lowercased
  canonical name, which trimming can prevent.
\<close>

theorem save_stores_canonical_entry:
  assumes "fst (validate_country net st (strip py form_country)) = Inr (Some canonical)"
    and "disk st = Json es"
    and "city = capitalize py (strip py form_city)"
    and "st' = snd (save py scorer net None st form_country form_city)"
  shows "fst (save py scorer net None st form_country form_city)
       = Inr (Success_html canonical city) \<and>
     disk st' = Json (es @ [\<lparr>entry_country = canonical, entry_capital = city,
                             entry_type = ''countryCapital''\<rparr>]) \<and>
     resolveExact py scorer st' canonical = Some city \<and>
     (\<forall>query. lower py query = lower py canonical
        \<longrightarrow> resolveExact py scorer st' query = Some city) \<and>
     (lower py (normalize py canonical) = lower py canonical
        \<longrightarrow> resolveExact py scorer st' (normalize py canonical) = Some city)"
proof -
  note w = save_written [OF assms(1,2), of scorer form_city]
  have m: "map_of (countryCapital st') (lower py canonical) = Some city"
    by (simp add: assms(3,4) w update_conv')
  show ?thesis
    using m by (simp add: assms(3,4) w resolveExact_eq)
qed

theorem save_stores_canonical_entry_witness:
  "fst (validate_country net_germany store_empty (strip ascii_str ''Deutschland''))
     = Inr (Some ''Germany'') \<and>
   disk store_empty = Json [] \<and>
   fst (save ascii_str example_scorer net_germany None store_empty ''Deutschland'' ''berlin'')
     = Inr (Success_html ''Germany'' ''Berlin'') \<and>
   disk (snd (save ascii_str example_scorer net_germany None store_empty
     ''Deutschland'' ''berlin'')) = Json [germany] \<and>
   lower ascii_str ''germany'' = lower ascii_str ''Germany'' \<and>
   resolveExact ascii_str example_scorer
     (snd (save ascii_str example_scorer net_germany None store_empty
        ''Deutschland'' ''berlin'')) ''germany'' = Some ''Berlin''"
proof -
  have d: "disk store_empty = Json []"
    by (simp add: store_empty_def)
  have c: "''Berlin'' = capitalize ascii_str (strip ascii_str ''berlin'')"
    by (simp add: str_defs)
  have l: "lower ascii_str ''germany'' = lower ascii_str ''Germany''"
    by (simp add: str_defs)
  from save_stores_canonical_entry [OF validate_germany d c refl, of example_scorer]
    validate_germany [of store_empty] d l
  show ?thesis by (simp add: germany_def)
qed

text \<open>
  With a canonical name that begins with a blank, the key keeps the blank and the lookup
  of the normalized name misses.
\<close>

theorem save_padded_canonical_counterexample:
  "fst (save ascii_str example_scorer net_padded None store_empty ''Deutschland'' ''berlin'')
     = Inr (Success_html '' Germany'' ''Berlin'') \<and>
   resolveExact ascii_str example_scorer
     (snd (save ascii_str example_scorer net_padded None store_empty ''Deutschland'' ''berlin''))
     (normalize ascii_str '' Germany'') = None"
proof -
  have d: "disk store_empty = Json []"
    by (simp add: store_empty_def)
  have c: "capitalize ascii_str (strip ascii_str ''berlin'') = ''Berlin''"
    by (simp add: str_defs)
  have n: "lower ascii_str (normalize ascii_str '' Germany'') = ''germany''"
    "lower ascii_str '' Germany'' = '' germany''"
    by (simp_all add: str_defs)
  have e: "countryCapital store_empty = []"
    by (simp add: store_empty_def)
  note w = save_written [OF validate_padded d, of example_scorer "''berlin''"]
  show ?thesis
    by (simp add: w c resolveExact_eq n update_conv' e)
qed

section \<open>The invariant of the store\<close>





section \<open>Local suggestions\<close>

lemma process_extract_length: "length (process_extract scorer query choices limit) \<le> limit"
  by (simp add: process_extract_def)

lemma process_extract_set:
  "m \<in> set (process_extract scorer query choices limit) \<Longrightarrow>
   \<exists>c \<in> set choices. m = (c, scorer query c)"
proof -
  assume "m \<in> set (process_extract scorer query choices limit)"
  then have "m \<in> set (sort_key (\<lambda>m. - snd m) (map (\<lambda>c. (c, scorer query c)) choices))"
    unfolding process_extract_def by (rule in_set_takeD)
  then show ?thesis by auto
qed

text \<open>
  C4, as amended. \<open>suggestLocal\<close> returns at most 5 candidates; each has a score of at
  least 60, which is the score of the query against a key of the dict, and its name is
  that key capitalized for display, which need not be a key itself.
\<close>

theorem suggestLocal_bounds:
  "length (fst (suggestLocal py scorer st query)) \<le> 5 \<and>
   (\<forall>(name, score) \<in> set (fst (suggestLocal py scorer st query)).
      60 \<le> score \<and>
      (\<exists>key \<in> set (map fst (countryCapital st)).
         name = capitalize py key \<and> score = scorer query key))"
proof -
  let ?keys = "map fst (countryCapital st)"
  let ?matches = "process_extract scorer query ?keys 5"
  let ?kept = "filter (\<lambda>(m, score). score \<ge> 60) ?matches"
  let ?shown = "map (\<lambda>(m, score). (capitalize py m, score)) ?kept"
  have len: "length ?shown \<le> 5"
  proof -
    have "length ?kept \<le> length ?matches" by (rule length_filter_le)
    also have "\<dots> \<le> 5" by (rule process_extract_length)
    finally show ?thesis by simp
  qed
  have each: "60 \<le> score \<and>
      (\<exists>key \<in> set ?keys. name = capitalize py key \<and> score = scorer query key)"
    if "(name, score) \<in> set ?shown" for name score
  proof -
    from that obtain m where m: "(m, score) \<in> set ?matches" "60 \<le> score"
      "name = capitalize py m"
      by auto
    from process_extract_set [OF m(1)] have "m \<in> set ?keys" "score = scorer query m"
      by auto
    with m show ?thesis by auto
  qed
  show ?thesis
  proof (cases "?keys = []")
    case True
    then show ?thesis
      by (simp add: suggestLocal_def find_similar_local_countries_def)
  next
    case False
    then have eq: "fst (suggestLocal py scorer st query) = ?shown"
      by (simp add: suggestLocal_def find_similar_local_countries_def Let_def)
    show ?thesis
      unfolding eq
    proof (intro conjI ballI)
      show "length ?shown \<le> 5"
        by (rule len)
    next
      fix x
      assume x: "x \<in> set ?shown"
      obtain name score where xs: "x = (name, score)" by (cases x)
      from x xs have "(name, score) \<in> set ?shown"
        by simp
      from each [OF this] xs
      show "case x of (name, score) \<Rightarrow> 60 \<le> score \<and>
          (\<exists>key \<in> set ?keys. name = capitalize py key \<and> score = scorer query key)"
        by simp
    qed
  qed
qed

theorem suggestLocal_bounds_witness:
  "fst (suggestLocal ascii_str example_scorer store_france ''franse'') = [(''France'', 83)] \<and>
   length (fst (suggestLocal ascii_str example_scorer store_france ''franse'')) \<le> 5 \<and>
   ''France'' = capitalize ascii_str ''france'' \<and>
   ''france'' \<in> set (map fst (countryCapital store_france)) \<and>
   example_scorer ''franse'' ''france'' = 83"
  using suggestLocal_bounds [of ascii_str example_scorer store_france "''franse''"]
  by (simp add: suggestLocal_def find_similar_local_countries_def process_extract_def
      example_scorer_def store_france_def str_defs)

text \<open>
  The name returned for the key \<open>''france''\<close> is \<open>''France''\<close>, which is not a key.
\<close>

theorem suggestLocal_recased_counterexample:
  "fst (suggestLocal ascii_str example_scorer store_france ''franse'') = [(''France'', 83)] \<and>
   ''France'' \<notin> set (map fst (countryCapital store_france))"
  by (simp add: suggestLocal_def find_similar_local_countries_def process_extract_def
      example_scorer_def store_france_def str_defs)

end
